theory Spec2Isabelle
  imports Complex_Main "HOL-Library.Char_ord" "HOL-Library.List_Lexorder"
begin

section \<open>Code-churn extraction and information-quality validation\<close>

text \<open>
  A shallow embedding of \<^verbatim>\<open>code_churn_extractor.py\<close> and \<^verbatim>\<open>iq_system.py\<close>.

  Scope of the model.
  \<^item> A table (the list of rows the extractor builds, the DataFrame the validator loads)
    is a list of rows with the eight fixed columns. A cell is missing (\<open>NaN\<close>), a text or
    an integer of the \<open>int64\<close> range. The sum of two columns that hold integers only is NumPy's
    \<open>int64\<close> sum and wraps around; in a column that also has missing values the numbers are
    \<open>float64\<close>, taken as exact. Fractional numbers and booleans are not covered.
  \<^item> The \<open>date\<close> column changes its type when the validator runs
    \<^verbatim>\<open>df["date"] = pd.to_datetime(df["date"], errors="coerce")\<close>: its cells are either as
    loaded, or \<open>NaT\<close>, or a timestamp. A timestamp is an instant, an integer count of
    nanoseconds since the epoch, and is either naive (\<open>Timestamp\<close>) or carries a time zone
    (\<open>TimestampTZ\<close>); the bounds of \<open>datetime64[ns]\<close> are not modelled.
  \<^item> The text-to-timestamp parser of \<^verbatim>\<open>pd.to_datetime\<close> and the clock
    (\<^verbatim>\<open>dt.datetime.today()\<close>, a naive instant) are parameters \<open>parse\<close> and \<open>today\<close>. The
    parser says of a text whether it is an instant without or with a time zone.
    \<open>parse_ymd\<close> is the parser for the one format the extractor writes, \<^verbatim>\<open>%Y-%m-%d\<close>.
  \<^item> Exceptions are values: a function that can raise returns \<open>error + 'a\<close>.
  \<^item> The quotient \<^verbatim>\<open>len(recent_records) / len(df)\<close> is the exact rational; the float that
    Python returns is its correctly rounded value, and rounding is monotone and fixes 0 and 1.
  \<^item> Printing, plotting and the reading and writing of files are left out.
\<close>

subsection \<open>Errors and cells\<close>

datatype error = TypeError | ZeroDivisionError | FileNotFoundError | GitError

datatype cell = NaN | Str string | Num int

datatype date_cell = Loaded cell | NaT | Timestamp int | TimestampTZ int

datatype parsed = Naive int | Aware int

type_synonym parser = "string \<Rightarrow> parsed option"

record churn_record =
  commit_hash :: cell
  author :: cell
  date :: date_cell
  file_path :: cell
  module :: cell
  loc_added :: cell
  loc_deleted :: cell
  loc_modified :: cell

type_synonym dataframe = "churn_record list"

subsection \<open>Python's \<open>str\<close> on integers, and \<open>strftime\<close>\<close>

definition digit_char :: "nat \<Rightarrow> char" where
  "digit_char d = char_of (48 + d)"

fun str_nat :: "nat \<Rightarrow> string" where
  "str_nat n = (if n < 10 then [digit_char n] else str_nat (n div 10) @ [digit_char (n mod 10)])"

declare str_nat.simps [simp del]

definition str_int :: "int \<Rightarrow> string" where
  "str_int i = (if i < 0 then CHR ''-'' # str_nat (nat (- i)) else str_nat (nat i))"

text \<open>
  \<open>py_str is_float x\<close> is \<^verbatim>\<open>str(x)\<close>. A numeric cell of a column that also has missing
  values is a \<open>float64\<close> and prints with a trailing \<^verbatim>\<open>.0\<close>.
\<close>

fun py_str :: "bool \<Rightarrow> cell \<Rightarrow> string" where
  "py_str _ NaN = ''nan''"
| "py_str _ (Str s) = s"
| "py_str is_float (Num n) = (if is_float then str_int n @ ''.0'' else str_int n)"




subsection \<open>The churn extractor\<close>












subsection \<open>The validator: columns and elementwise operations\<close>

definition isnull :: "cell \<Rightarrow> bool" where
  "isnull c = (case c of NaN \<Rightarrow> True | _ \<Rightarrow> False)"

definition is_text :: "cell \<Rightarrow> bool" where
  "is_text c = (case c of Str _ \<Rightarrow> True | _ \<Rightarrow> False)"

definition date_isnull :: "date_cell \<Rightarrow> bool" where
  "date_isnull d = (case d of Loaded c \<Rightarrow> isnull c | NaT \<Rightarrow> True | _ \<Rightarrow> False)"

definition is_loaded :: "date_cell \<Rightarrow> bool" where
  "is_loaded d = (case d of Loaded _ \<Rightarrow> True | _ \<Rightarrow> False)"

text \<open>
  A vectorised comparison followed by \<^verbatim>\<open>.all()\<close>: the comparison raises when it raises on
  any element.
\<close>

fun series_all :: "('a \<Rightarrow> error + bool) \<Rightarrow> 'a list \<Rightarrow> error + bool" where
  "series_all f [] = Inr True"
| "series_all f (x # xs) =
     (case f x of
        Inl e \<Rightarrow> Inl e
      | Inr b \<Rightarrow> (case series_all f xs of Inl e \<Rightarrow> Inl e | Inr bs \<Rightarrow> Inr (b \<and> bs)))"

text \<open>\<^verbatim>\<open>x >= k\<close> and \<^verbatim>\<open>x < k\<close> on a cell: false on a missing value, a TypeError on a text.\<close>

fun ge_int :: "cell \<Rightarrow> int \<Rightarrow> error + bool" where
  "ge_int (Num n) k = Inr (k \<le> n)"
| "ge_int NaN k = Inr False"
| "ge_int (Str s) k = Inl TypeError"

fun lt_int :: "cell \<Rightarrow> int \<Rightarrow> error + bool" where
  "lt_int (Num n) k = Inr (n < k)"
| "lt_int NaN k = Inr False"
| "lt_int (Str s) k = Inl TypeError"

text \<open>
  \<^verbatim>\<open>x + y\<close> on two cells: numbers add, a missing value absorbs a number, two texts
  concatenate, and a text with anything else is a TypeError. \<open>int64\<close> says that both
  columns hold integers only: then the sum is NumPy's and wraps around.
\<close>

definition wrap64 :: "int \<Rightarrow> int" where
  "wrap64 x = (x + 9223372036854775808) mod 18446744073709551616 - 9223372036854775808"

fun add_cell :: "bool \<Rightarrow> cell \<Rightarrow> cell \<Rightarrow> error + cell" where
  "add_cell int64 (Num a) (Num b) = Inr (Num (if int64 then wrap64 (a + b) else a + b))"
| "add_cell int64 (Num a) NaN = Inr NaN"
| "add_cell int64 NaN (Num b) = Inr NaN"
| "add_cell int64 NaN NaN = Inr NaN"
| "add_cell int64 (Str a) (Str b) = Inr (Str (a @ b))"
| "add_cell int64 (Str a) (Num b) = Inl TypeError"
| "add_cell int64 (Str a) NaN = Inl TypeError"
| "add_cell int64 (Num a) (Str b) = Inl TypeError"
| "add_cell int64 NaN (Str b) = Inl TypeError"

fun elementwise_add :: "bool \<Rightarrow> cell list \<Rightarrow> cell list \<Rightarrow> error + cell list" where
  "elementwise_add int64 (x # xs) (y # ys) =
     (case add_cell int64 x y of
        Inl e \<Rightarrow> Inl e
      | Inr z \<Rightarrow> (case elementwise_add int64 xs ys of Inl e \<Rightarrow> Inl e | Inr zs \<Rightarrow> Inr (z # zs)))"
| "elementwise_add int64 _ _ = Inr []"

definition is_num :: "cell \<Rightarrow> bool" where
  "is_num c = (case c of Num _ \<Rightarrow> True | _ \<Rightarrow> False)"

definition int64_dtype :: "cell list \<Rightarrow> bool" where
  "int64_dtype col = list_all is_num col"

definition series_add :: "cell list \<Rightarrow> cell list \<Rightarrow> error + cell list" where
  "series_add xs ys = elementwise_add (int64_dtype xs \<and> int64_dtype ys) xs ys"

text \<open>\<^verbatim>\<open>x == y\<close> on two cells never raises; a missing value equals nothing.\<close>

fun eq_cell :: "cell \<Rightarrow> cell \<Rightarrow> bool" where
  "eq_cell (Num a) (Num b) = (a = b)"
| "eq_cell (Str a) (Str b) = (a = b)"
| "eq_cell _ _ = False"

text \<open>
  \<^verbatim>\<open>pd.to_datetime(col, errors="coerce")\<close>: a text that does not parse and a missing value
  become \<open>NaT\<close>, a text with a time zone becomes an aware timestamp, an integer counts
  nanoseconds, a datetime column is returned as it is.
\<close>

fun to_datetime1 :: "parser \<Rightarrow> date_cell \<Rightarrow> date_cell" where
  "to_datetime1 parse (Loaded NaN) = NaT"
| "to_datetime1 parse (Loaded (Str s)) =
     (case parse s of
        None \<Rightarrow> NaT
      | Some (Naive t) \<Rightarrow> Timestamp t
      | Some (Aware t) \<Rightarrow> TimestampTZ t)"
| "to_datetime1 parse (Loaded (Num n)) = Timestamp n"
| "to_datetime1 parse NaT = NaT"
| "to_datetime1 parse (Timestamp t) = Timestamp t"
| "to_datetime1 parse (TimestampTZ t) = TimestampTZ t"

definition to_datetime :: "parser \<Rightarrow> date_cell list \<Rightarrow> date_cell list" where
  "to_datetime parse col = map (to_datetime1 parse) col"

text \<open>\<^verbatim>\<open>df["date"] = col\<close>: the frame with its date column replaced.\<close>

definition assign_date :: "dataframe \<Rightarrow> date_cell list \<Rightarrow> dataframe" where
  "assign_date df col = map (\<lambda>(r, d). r\<lparr>date := d\<rparr>) (zip df col)"

text \<open>
  \<^verbatim>\<open>x <= today\<close> on a cell of the date column. \<open>today\<close> is naive: comparing a timestamp
  that carries a time zone with it is a TypeError.
\<close>

fun le_datetime :: "date_cell \<Rightarrow> int \<Rightarrow> error + bool" where
  "le_datetime (Timestamp t) today = Inr (t \<le> today)"
| "le_datetime (TimestampTZ t) today = Inl TypeError"
| "le_datetime NaT today = Inr False"
| "le_datetime (Loaded c) today = Inl TypeError"

text \<open>
  \<^verbatim>\<open>is_monotonic_increasing\<close> and \<^verbatim>\<open>is_monotonic_decreasing\<close>: true on the empty column;
  false when a value is missing or two neighbours do not compare; otherwise every value is
  at most (at least) its successor.
\<close>

fun cell_le :: "date_cell \<Rightarrow> date_cell \<Rightarrow> bool" where
  "cell_le (Timestamp a) (Timestamp b) = (a \<le> b)"
| "cell_le (TimestampTZ a) (TimestampTZ b) = (a \<le> b)"
| "cell_le (Loaded (Num a)) (Loaded (Num b)) = (a \<le> b)"
| "cell_le (Loaded (Str a)) (Loaded (Str b)) = (a \<le> b)"
| "cell_le _ _ = False"

definition is_monotonic_increasing :: "date_cell list \<Rightarrow> bool" where
  "is_monotonic_increasing col =
     (col = [] \<or> (list_all (\<lambda>d. \<not> date_isnull d) col \<and> successively cell_le col))"

definition is_monotonic_decreasing :: "date_cell list \<Rightarrow> bool" where
  "is_monotonic_decreasing col =
     (col = [] \<or> (list_all (\<lambda>d. \<not> date_isnull d) col \<and> successively (\<lambda>a b. cell_le b a) col))"

subsection \<open>The ten checks\<close>

text \<open>\<^verbatim>\<open>df.isnull().sum()\<close>: the number of missing cells of each column.\<close>

definition isnull_sum :: "dataframe \<Rightarrow> nat list" where
  "isnull_sum df =
     [length (filter isnull (map commit_hash df)),
      length (filter isnull (map author df)),
      length (filter date_isnull (map date df)),
      length (filter isnull (map file_path df)),
      length (filter isnull (map module df)),
      length (filter isnull (map loc_added df)),
      length (filter isnull (map loc_deleted df)),
      length (filter isnull (map loc_modified df))]"

definition missing_values :: "dataframe \<Rightarrow> bool" where
  "missing_values df = (sum_list (isnull_sum df) = 0)"

text \<open>Line 24 of the validator: the date column is converted in place.\<close>

definition coerce_dates :: "parser \<Rightarrow> dataframe \<Rightarrow> dataframe" where
  "coerce_dates parse df = assign_date df (to_datetime parse (map date df))"

definition valid_dates :: "int \<Rightarrow> dataframe \<Rightarrow> error + bool" where
  "valid_dates today df =
     (if \<not> list_all (\<lambda>d. \<not> date_isnull d) (map date df) then Inr False
      else series_all (\<lambda>d. le_datetime d today) (map date df))"

definition no_duplicates :: "dataframe \<Rightarrow> bool" where
  "no_duplicates df = distinct df"

definition non_negative_LOC :: "dataframe \<Rightarrow> error + bool" where
  "non_negative_LOC df =
     (case series_all (\<lambda>c. ge_int c 0) (map loc_added df) of
        Inl e \<Rightarrow> Inl e
      | Inr a \<Rightarrow>
          if \<not> a then Inr False
          else (case series_all (\<lambda>c. ge_int c 0) (map loc_deleted df) of
                  Inl e \<Rightarrow> Inl e
                | Inr d \<Rightarrow>
                    if \<not> d then Inr False
                    else series_all (\<lambda>c. ge_int c 0) (map loc_modified df)))"

definition LOC_consistency :: "dataframe \<Rightarrow> error + bool" where
  "LOC_consistency df =
     (case series_add (map loc_added df) (map loc_deleted df) of
        Inl e \<Rightarrow> Inl e
      | Inr s \<Rightarrow> Inr (list_all2 eq_cell (map loc_modified df) s))"

definition reasonable_LOC_bounds :: "dataframe \<Rightarrow> error + bool" where
  "reasonable_LOC_bounds df = series_all (\<lambda>c. lt_int c 10000) (map loc_modified df)"

text \<open>A column without text that has a missing value is a \<open>float64\<close> column.\<close>

definition float_dtype :: "cell list \<Rightarrow> bool" where
  "float_dtype col = (list_ex isnull col \<and> list_all (\<lambda>c. \<not> is_text c) col)"

definition valid_commit_hash :: "dataframe \<Rightarrow> bool" where
  "valid_commit_hash df =
     (let col = map commit_hash df
      in list_all (\<lambda>x. length (py_str (float_dtype col) x) = 8) col)"

definition author_validity :: "dataframe \<Rightarrow> bool" where
  "author_validity df =
     list_all (\<lambda>x. case x of Str s \<Rightarrow> 1 < length s | _ \<Rightarrow> False) (map author df)"

definition module_field_presence :: "dataframe \<Rightarrow> bool" where
  "module_field_presence df = list_all (\<lambda>c. \<not> isnull c) (map module df)"

definition chronological_order :: "dataframe \<Rightarrow> bool" where
  "chronological_order df =
     (is_monotonic_increasing (map date df) \<or> is_monotonic_decreasing (map date df))"

subsection \<open>The check battery\<close>

text \<open>
  The result dictionary is the list of its items in insertion order. The frame is passed
  in and returned: the second component is the frame as the call leaves it, also when a
  check raises.
\<close>

type_synonym checks = "(string \<times> bool) list"

definition free_of_error_checks ::
    "int \<Rightarrow> parser \<Rightarrow> dataframe \<Rightarrow> (error + checks) \<times> dataframe" where
  "free_of_error_checks today parse df0 =
     (let c1 = missing_values df0;
          df = coerce_dates parse df0
      in ((case valid_dates today df of
             Inl e \<Rightarrow> Inl e
           | Inr c2 \<Rightarrow>
          let c3 = no_duplicates df in
          (case non_negative_LOC df of
             Inl e \<Rightarrow> Inl e
           | Inr c4 \<Rightarrow>
          (case LOC_consistency df of
             Inl e \<Rightarrow> Inl e
           | Inr c5 \<Rightarrow>
          (case reasonable_LOC_bounds df of
             Inl e \<Rightarrow> Inl e
           | Inr c6 \<Rightarrow>
               Inr [(''missing_values'', c1),
                    (''valid_dates'', c2),
                    (''no_duplicates'', c3),
                    (''non_negative_LOC'', c4),
                    (''LOC_consistency'', c5),
                    (''reasonable_LOC_bounds'', c6),
                    (''valid_commit_hash'', valid_commit_hash df),
                    (''author_validity'', author_validity df),
                    (''module_field_presence'', module_field_presence df),
                    (''chronological_order'', chronological_order df)])))),
          df))"

subsection \<open>The timeliness scorer\<close>

definition timedelta_days :: "int \<Rightarrow> int" where
  "timedelta_days n = n * 86400000000000"

text \<open>
  The instants of a datetime column. A datetime column is naive or aware as a whole, and
  its values are compared as instants.
\<close>

fun timestamps :: "date_cell list \<Rightarrow> int list" where
  "timestamps [] = []"
| "timestamps (Timestamp t # col) = t # timestamps col"
| "timestamps (TimestampTZ t # col) = t # timestamps col"
| "timestamps (_ # col) = timestamps col"

text \<open>\<^verbatim>\<open>col.max()\<close> on a datetime column skips \<open>NaT\<close>; it is \<open>NaT\<close> (here \<open>None\<close>) when nothing is left.\<close>

definition series_max :: "date_cell list \<Rightarrow> int option" where
  "series_max col = (case timestamps col of [] \<Rightarrow> None | t # ts \<Rightarrow> Some (fold max ts t))"

text \<open>\<^verbatim>\<open>x >= cutoff\<close> on a datetime cell: false when either side is \<open>NaT\<close>.\<close>

fun ge_datetime :: "date_cell \<Rightarrow> int option \<Rightarrow> bool" where
  "ge_datetime (Timestamp t) (Some c) = (c \<le> t)"
| "ge_datetime (TimestampTZ t) (Some c) = (c \<le> t)"
| "ge_datetime _ _ = False"

text \<open>
  On a date column that \<open>to_datetime\<close> has not converted, \<^verbatim>\<open>max()\<close> is a text or a number and
  subtracting the \<open>Timedelta\<close> raises a TypeError.
\<close>

definition compute_timeliness :: "dataframe \<Rightarrow> error + rat" where
  "compute_timeliness df =
     (if list_ex is_loaded (map date df) then Inl TypeError
      else
        let latest_date = series_max (map date df);
            cutoff_date = map_option (\<lambda>t. t - timedelta_days 90) latest_date;
            recent_records = filter (\<lambda>r. ge_datetime (date r) cutoff_date) df
        in if length df = 0 then Inl ZeroDivisionError
           else Inr (of_nat (length recent_records) / of_nat (length df)))"

subsection \<open>The validator's entry point\<close>

text \<open>
  \<open>csv\<close> is the loaded file, \<open>None\<close> when it does not exist (then a message is printed and
  nothing is computed). The scorer receives the frame as the battery left it.
\<close>

definition main :: "int \<Rightarrow> parser \<Rightarrow> dataframe option \<Rightarrow> error + (checks \<times> rat) option" where
  "main today parse csv =
     (case csv of
        None \<Rightarrow> Inr None
      | Some df0 \<Rightarrow>
          (case free_of_error_checks today parse df0 of
             (Inl e, df) \<Rightarrow> Inl e
           | (Inr results, df) \<Rightarrow>
               (case compute_timeliness df of
                  Inl e \<Rightarrow> Inl e
                | Inr timeliness \<Rightarrow> Inr (Some (results, timeliness)))))"

subsection \<open>Parsing \<^verbatim>\<open>%Y-%m-%d\<close>\<close>

definition digit_val :: "char \<Rightarrow> nat option" where
  "digit_val c = (let n = (of_char c :: nat) in if 48 \<le> n \<and> n \<le> 57 then Some (n - 48) else None)"

fun digits_val :: "string \<Rightarrow> nat \<Rightarrow> nat option" where
  "digits_val [] acc = Some acc"
| "digits_val (c # cs) acc =
     (case digit_val c of None \<Rightarrow> None | Some d \<Rightarrow> digits_val cs (10 * acc + d))"

definition is_leap :: "nat \<Rightarrow> bool" where
  "is_leap y = (y mod 4 = 0 \<and> (y mod 100 \<noteq> 0 \<or> y mod 400 = 0))"

definition days_in_month :: "nat \<Rightarrow> nat \<Rightarrow> nat" where
  "days_in_month y m =
     (if m = 2 then (if is_leap y then 29 else 28)
      else if m = 4 \<or> m = 6 \<or> m = 9 \<or> m = 11 then 30 else 31)"

text \<open>Days from 1970-01-01 to a date of the proleptic Gregorian calendar.\<close>

definition days_from_civil :: "nat \<Rightarrow> nat \<Rightarrow> nat \<Rightarrow> int" where
  "days_from_civil y m d =
     (let y' = (if m \<le> 2 then int y - 1 else int y);
          era = y' div 400;
          yoe = y' - era * 400;
          mp = (if m \<le> 2 then int m + 9 else int m - 3);
          doy = (153 * mp + 2) div 5 + int d - 1;
          doe = yoe * 365 + yoe div 4 - yoe div 100 + doy
      in era * 146097 + doe - 719468)"

definition parse_ymd :: parser where
  "parse_ymd s =
     (if length s = 10 \<and> s ! 4 = CHR ''-'' \<and> s ! 7 = CHR ''-'' then
        (case (digits_val (take 4 s) 0, digits_val (take 2 (drop 5 s)) 0, digits_val (drop 8 s) 0) of
           (Some y, Some m, Some d) \<Rightarrow>
             if 1678 \<le> y \<and> y \<le> 2261 \<and> 1 \<le> m \<and> m \<le> 12 \<and> 1 \<le> d \<and> d \<le> days_in_month y m
             then Some (Naive (timedelta_days (days_from_civil y m d)))
             else None
         | _ \<Rightarrow> None)
      else None)"

text \<open>
  The parser for \<^verbatim>\<open>%Y-%m-%d %H:%M:%S%z\<close>, at the offset \<^verbatim>\<open>+00:00\<close>: its instants carry
  the time zone UTC.
\<close>

definition parse_ymd_hms_utc :: parser where
  "parse_ymd_hms_utc s =
     (if length s = 25 \<and> s ! 10 = CHR '' '' \<and> s ! 13 = CHR '':'' \<and> s ! 16 = CHR '':'' \<and>
         drop 19 s = ''+00:00'' then
        (case (parse_ymd (take 10 s), digits_val (take 2 (drop 11 s)) 0,
               digits_val (take 2 (drop 14 s)) 0, digits_val (take 2 (drop 17 s)) 0) of
           (Some (Naive midnight), Some h, Some m, Some sec) \<Rightarrow>
             if h < 24 \<and> m < 60 \<and> sec < 60
             then Some (Aware (midnight + (int h * 3600 + int m * 60 + int sec) * 1000000000))
             else None
         | _ \<Rightarrow> None)
      else None)"

subsection \<open>Reading one line of the file\<close>

text \<open>
  The row that loading gives for a line whose five text fields are texts and whose three
  counts are integers, as the extractor writes them.
\<close>

definition loaded_row ::
    "string \<Rightarrow> string \<Rightarrow> string \<Rightarrow> string \<Rightarrow> string \<Rightarrow> int \<Rightarrow> int \<Rightarrow> int \<Rightarrow> churn_record" where
  "loaded_row h a d p m added deleted modified =
     \<lparr> commit_hash = Str h, author = Str a, date = Loaded (Str d), file_path = Str p,
       module = Str m, loc_added = Num added, loc_deleted = Num deleted,
       loc_modified = Num modified \<rparr>"

subsection \<open>Predicates of the specification\<close>


text \<open>Some count of the frame is a text.\<close>

definition text_in_LOC :: "dataframe \<Rightarrow> bool" where
  "text_in_LOC df =
     list_ex (\<lambda>r. is_text (loc_added r) \<or> is_text (loc_deleted r) \<or> is_text (loc_modified r)) df"




definition is_aware :: "date_cell \<Rightarrow> bool" where
  "is_aware d = (case d of TimestampTZ _ \<Rightarrow> True | _ \<Rightarrow> False)"

text \<open>Some date of the frame carries a time zone once it is converted.\<close>

definition aware_dates :: "parser \<Rightarrow> dataframe \<Rightarrow> bool" where
  "aware_dates parse df = list_ex (\<lambda>r. is_aware (to_datetime1 parse (date r))) df"



subsection \<open>Elementwise operations on cells that are not text\<close>

definition num_ge :: "int \<Rightarrow> cell \<Rightarrow> bool" where
  "num_ge k c = (case c of Num n \<Rightarrow> k \<le> n | _ \<Rightarrow> False)"

definition num_lt :: "int \<Rightarrow> cell \<Rightarrow> bool" where
  "num_lt k c = (case c of Num n \<Rightarrow> n < k | _ \<Rightarrow> False)"

definition num_add :: "bool \<Rightarrow> cell \<Rightarrow> cell \<Rightarrow> cell" where
  "num_add int64 x y =
     (case (x, y) of
        (Num a, Num b) \<Rightarrow> Num (if int64 then wrap64 (a + b) else a + b)
      | _ \<Rightarrow> NaN)"

definition int64_sum :: "dataframe \<Rightarrow> bool" where
  "int64_sum df = (int64_dtype (map loc_added df) \<and> int64_dtype (map loc_deleted df))"

definition on_or_before :: "int \<Rightarrow> date_cell \<Rightarrow> bool" where
  "on_or_before today d = (case d of Timestamp t \<Rightarrow> t \<le> today | _ \<Rightarrow> False)"

subsection \<open>The rows of one commit\<close>


subsection \<open>Reading the result dictionary\<close>

text \<open>The names of the ten checks, in the order the battery stores them.\<close>

definition check_names :: "string list" where
  "check_names =
     [''missing_values'', ''valid_dates'', ''no_duplicates'', ''non_negative_LOC'',
      ''LOC_consistency'', ''reasonable_LOC_bounds'', ''valid_commit_hash'',
      ''author_validity'', ''module_field_presence'', ''chronological_order'']"

text \<open>
  The entry of a check in the result dictionary, as the value the check's own expression
  returns (an expression that can raise returns \<open>Inr\<close> of its boolean).
\<close>

definition entry :: "checks \<Rightarrow> string \<Rightarrow> (error + bool) option" where
  "entry results name = map_option Inr (map_of results name)"

text \<open>A date that is missing or that the parser rejects: its conversion is \<open>NaT\<close>.\<close>

definition unusable_date :: "parser \<Rightarrow> date_cell \<Rightarrow> bool" where
  "unusable_date parse d = date_isnull (to_datetime1 parse d)"

subsection \<open>Four commits\<close>





section \<open>Properties\<close>

subsection \<open>Cells\<close>

lemma coerce_dates_map:
  "coerce_dates parse df = map (\<lambda>r. r\<lparr>date := to_datetime1 parse (date r)\<rparr>) df"
  unfolding coerce_dates_def assign_date_def to_datetime_def
  by (induction df) simp_all

lemma length_coerce_dates [simp]: "length (coerce_dates parse df) = length df"
  by (simp add: coerce_dates_map)

lemma coerce_dates_columns [simp]:
  "map commit_hash (coerce_dates parse df) = map commit_hash df"
  "map author (coerce_dates parse df) = map author df"
  "map file_path (coerce_dates parse df) = map file_path df"
  "map module (coerce_dates parse df) = map module df"
  "map loc_added (coerce_dates parse df) = map loc_added df"
  "map loc_deleted (coerce_dates parse df) = map loc_deleted df"
  "map loc_modified (coerce_dates parse df) = map loc_modified df"
  "map date (coerce_dates parse df) = map (to_datetime1 parse) (map date df)"
  by (simp_all add: coerce_dates_map)

lemma to_datetime1_not_loaded [simp]: "\<not> is_loaded (to_datetime1 parse d)"
  by (cases "(parse, d)" rule: to_datetime1.cases) (auto simp: is_loaded_def split: option.splits parsed.splits)

lemma num_ge_simps [simp]:
  "num_ge k (Num n) = (k \<le> n)" "num_ge k NaN = False" "num_ge k (Str s) = False"
  by (simp_all add: num_ge_def)

lemma num_lt_simps [simp]:
  "num_lt k (Num n) = (n < k)" "num_lt k NaN = False" "num_lt k (Str s) = False"
  by (simp_all add: num_lt_def)

lemma is_text_simps [simp]:
  "is_text (Str s) = True" "is_text NaN = False" "is_text (Num n) = False"
  by (simp_all add: is_text_def)

lemma isnull_simps [simp]:
  "isnull NaN = True" "isnull (Str s) = False" "isnull (Num n) = False"
  by (simp_all add: isnull_def)

lemma is_loaded_simps [simp]:
  "is_loaded (Loaded c) = True" "is_loaded NaT = False" "is_loaded (Timestamp t) = False"
  "is_loaded (TimestampTZ t) = False"
  by (simp_all add: is_loaded_def)

lemma date_isnull_simps [simp]:
  "date_isnull (Loaded c) = isnull c" "date_isnull NaT = True" "date_isnull (Timestamp t) = False"
  "date_isnull (TimestampTZ t) = False"
  by (simp_all add: date_isnull_def)

lemma is_aware_simps [simp]:
  "is_aware (Loaded c) = False" "is_aware NaT = False" "is_aware (Timestamp t) = False"
  "is_aware (TimestampTZ t) = True"
  by (simp_all add: is_aware_def)

lemma is_num_simps [simp]:
  "is_num (Num n) = True" "is_num NaN = False" "is_num (Str s) = False"
  by (simp_all add: is_num_def)

lemma series_all_ge_int:
  "series_all (\<lambda>c. ge_int c k) col =
     (if list_ex is_text col then Inl TypeError else Inr (list_all (num_ge k) col))"
proof (induction col)
  case Nil
  show ?case by simp
next
  case (Cons c col)
  then show ?case by (cases c) simp_all
qed

lemma series_all_lt_int:
  "series_all (\<lambda>c. lt_int c k) col =
     (if list_ex is_text col then Inl TypeError else Inr (list_all (num_lt k) col))"
proof (induction col)
  case Nil
  show ?case by simp
next
  case (Cons c col)
  then show ?case by (cases c) simp_all
qed

lemma add_cell_no_text:
  "\<not> is_text x \<Longrightarrow>
   add_cell int64 x y = (if is_text y then Inl TypeError else Inr (num_add int64 x y))"
  by (cases x; cases y) (simp_all add: num_add_def)

lemma elementwise_add_no_text:
  "\<not> list_ex (\<lambda>r. is_text (loc_added r)) df \<Longrightarrow>
   elementwise_add int64 (map loc_added df) (map loc_deleted df) =
     (if list_ex (\<lambda>r. is_text (loc_deleted r)) df then Inl TypeError
      else Inr (map (\<lambda>r. num_add int64 (loc_added r) (loc_deleted r)) df))"
  by (induction df) (simp_all add: add_cell_no_text)

lemma series_add_no_text:
  "\<not> list_ex (\<lambda>r. is_text (loc_added r)) df \<Longrightarrow>
   series_add (map loc_added df) (map loc_deleted df) =
     (if list_ex (\<lambda>r. is_text (loc_deleted r)) df then Inl TypeError
      else Inr (map (\<lambda>r. num_add (int64_sum df) (loc_added r) (loc_deleted r)) df))"
  unfolding series_add_def int64_sum_def by (rule elementwise_add_no_text)

lemma on_or_before_simps [simp]:
  "on_or_before today (Timestamp t) = (t \<le> today)" "on_or_before today NaT = False"
  "on_or_before today (Loaded c) = False" "on_or_before today (TimestampTZ t) = False"
  by (simp_all add: on_or_before_def)

lemma series_all_le_datetime:
  "\<not> list_ex is_loaded col \<Longrightarrow> \<not> list_ex is_aware col \<Longrightarrow>
   series_all (\<lambda>d. le_datetime d today) col = Inr (list_all (on_or_before today) col)"
proof (induction col)
  case Nil
  show ?case by simp
next
  case (Cons d col)
  then show ?case by (cases d) simp_all
qed

lemma on_or_before_notnull:
  "list_all (on_or_before today) col \<Longrightarrow> list_all (\<lambda>d. \<not> date_isnull d) col"
proof (induction col)
  case Nil
  show ?case by simp
next
  case (Cons d col)
  then show ?case by (cases d) simp_all
qed

lemma series_all_le_datetime_error:
  "series_all (\<lambda>d. le_datetime d today) col = Inl e \<Longrightarrow> e = TypeError"
proof (induction col)
  case Nil
  then show ?case by simp
next
  case (Cons d col)
  then show ?case by (cases d) (simp_all split: sum.splits)
qed

lemma valid_dates_error: "valid_dates today df = Inl e \<Longrightarrow> e = TypeError"
  unfolding valid_dates_def by (simp split: if_splits add: series_all_le_datetime_error)

lemma valid_dates_datetime:
  assumes "\<not> list_ex is_loaded (map date df)" and "\<not> list_ex is_aware (map date df)"
  shows "valid_dates today df = Inr (list_all (on_or_before today) (map date df))"
proof (cases "list_all (\<lambda>d. \<not> date_isnull d) (map date df)")
  case True
  then show ?thesis
    unfolding valid_dates_def by (simp add: series_all_le_datetime[OF assms])
next
  case False
  then have "\<not> list_all (on_or_before today) (map date df)"
    using on_or_before_notnull by blast
  with False show ?thesis
    unfolding valid_dates_def by simp
qed

lemma coerce_dates_not_loaded: "\<not> list_ex is_loaded (map date (coerce_dates parse df))"
  by (simp add: list_ex_iff)

lemma aware_dates_column:
  "aware_dates parse df = list_ex is_aware (map date (coerce_dates parse df))"
  by (simp add: aware_dates_def list_ex_iff)

lemma valid_dates_coerced:
  assumes "\<not> aware_dates parse df"
  shows "valid_dates today (coerce_dates parse df) =
     Inr (list_all (on_or_before today) (map date (coerce_dates parse df)))"
  using assms unfolding aware_dates_column
  by (rule valid_dates_datetime[OF coerce_dates_not_loaded])

subsection \<open>The battery on the empty frame\<close>

text \<open>
  Claim C9. A dataset of zero records passes every check: the battery applied to the empty
  frame returns true for each of the ten named checks, in the order of the report.
\<close>

theorem empty_dataset_passes_every_check:
  "fst (free_of_error_checks today parse []) =
     Inr [(''missing_values'', True),
          (''valid_dates'', True),
          (''no_duplicates'', True),
          (''non_negative_LOC'', True),
          (''LOC_consistency'', True),
          (''reasonable_LOC_bounds'', True),
          (''valid_commit_hash'', True),
          (''author_validity'', True),
          (''module_field_presence'', True),
          (''chronological_order'', True)]"
  by (simp add: free_of_error_checks_def coerce_dates_def assign_date_def to_datetime_def
      missing_values_def isnull_sum_def valid_dates_def no_duplicates_def non_negative_LOC_def
      LOC_consistency_def series_add_def reasonable_LOC_bounds_def valid_commit_hash_def
      author_validity_def module_field_presence_def chronological_order_def
      is_monotonic_increasing_def)

subsection \<open>The scorer on the empty frame\<close>

lemma compute_timeliness_cases:
  "compute_timeliness df =
     (if list_ex is_loaded (map date df) then Inl TypeError
      else if df = [] then Inl ZeroDivisionError
      else Inr (of_nat (length (filter (\<lambda>r. ge_datetime (date r)
                  (map_option (\<lambda>t. t - timedelta_days 90) (series_max (map date df)))) df))
                / of_nat (length df)))"
  by (simp add: compute_timeliness_def Let_def)

text \<open>
  Claim C3, as stated, fails: the scorer has no guard for a frame of zero records. On the
  empty frame the division raises \<^verbatim>\<open>ZeroDivisionError\<close>, and the validator's entry point,
  which does not catch it, ends with that error on a file that holds only the header.
\<close>

theorem timeliness_of_no_records_raises:
  "compute_timeliness [] = Inl ZeroDivisionError \<and>
   main 1800000000000000000 parse_ymd (Some []) = Inl ZeroDivisionError"
  by (simp add: compute_timeliness_def main_def free_of_error_checks_def coerce_dates_def
      assign_date_def to_datetime_def valid_dates_def non_negative_LOC_def
      LOC_consistency_def series_add_def reasonable_LOC_bounds_def)

text \<open>
  Claim C3, amended. The scorer raises \<^verbatim>\<open>ZeroDivisionError\<close> exactly on the frame of zero
  records, and the entry point passes the error on, whatever the clock and the parser.
\<close>

theorem timeliness_division_unguarded:
  "(compute_timeliness df = Inl ZeroDivisionError) = (df = []) \<and>
   main today parse (Some []) = Inl ZeroDivisionError"
  by (simp add: compute_timeliness_cases main_def free_of_error_checks_def coerce_dates_def
      assign_date_def to_datetime_def valid_dates_def non_negative_LOC_def
      LOC_consistency_def series_add_def reasonable_LOC_bounds_def)

subsection \<open>The extraction loop\<close>









subsection \<open>The battery: when it raises and what it returns\<close>

lemma text_in_LOC_columns:
  "text_in_LOC df =
     (list_ex is_text (map loc_added df) \<or> list_ex is_text (map loc_deleted df) \<or>
      list_ex is_text (map loc_modified df))"
  by (auto simp: text_in_LOC_def list_ex_iff)

lemma list_ex_is_text_map: "list_ex is_text (map f df) = list_ex (\<lambda>r. is_text (f r)) df"
  by (simp add: list_ex_iff)

lemma non_negative_LOC_error: "non_negative_LOC df = Inl e \<Longrightarrow> e = TypeError"
  unfolding non_negative_LOC_def series_all_ge_int
  by (simp split: if_splits)

lemma non_negative_LOC_text_added:
  "list_ex is_text (map loc_added df) \<Longrightarrow> non_negative_LOC df = Inl TypeError"
  unfolding non_negative_LOC_def series_all_ge_int by simp

lemma non_negative_LOC_no_text:
  "\<not> text_in_LOC df \<Longrightarrow>
   non_negative_LOC df =
     Inr (list_all (num_ge 0) (map loc_added df) \<and> list_all (num_ge 0) (map loc_deleted df) \<and>
          list_all (num_ge 0) (map loc_modified df))"
  unfolding non_negative_LOC_def series_all_ge_int text_in_LOC_columns by simp

lemma LOC_consistency_text_deleted:
  "\<not> list_ex is_text (map loc_added df) \<Longrightarrow> list_ex is_text (map loc_deleted df) \<Longrightarrow>
   LOC_consistency df = Inl TypeError"
  unfolding LOC_consistency_def list_ex_is_text_map by (simp add: series_add_no_text)

lemma LOC_consistency_no_text_operands:
  "\<not> list_ex is_text (map loc_added df) \<Longrightarrow> \<not> list_ex is_text (map loc_deleted df) \<Longrightarrow>
   LOC_consistency df =
     Inr (list_all2 eq_cell (map loc_modified df) (map (\<lambda>r. num_add (int64_sum df) (loc_added r) (loc_deleted r)) df))"
  unfolding LOC_consistency_def list_ex_is_text_map by (simp add: series_add_no_text)

lemma reasonable_LOC_bounds_cases:
  "reasonable_LOC_bounds df =
     (if list_ex is_text (map loc_modified df) then Inl TypeError
      else Inr (list_all (num_lt 10000) (map loc_modified df)))"
  by (simp add: reasonable_LOC_bounds_def series_all_lt_int)

lemma LOC_checks_coerced [simp]:
  "non_negative_LOC (coerce_dates parse df) = non_negative_LOC df"
  "LOC_consistency (coerce_dates parse df) = LOC_consistency df"
  "reasonable_LOC_bounds (coerce_dates parse df) = reasonable_LOC_bounds df"
  "valid_commit_hash (coerce_dates parse df) = valid_commit_hash df"
  "author_validity (coerce_dates parse df) = author_validity df"
  "module_field_presence (coerce_dates parse df) = module_field_presence df"
  unfolding non_negative_LOC_def LOC_consistency_def reasonable_LOC_bounds_def
    valid_commit_hash_def author_validity_def module_field_presence_def coerce_dates_columns
  by (rule refl)+

lemma battery_frame: "snd (free_of_error_checks today parse df) = coerce_dates parse df"
  by (simp add: free_of_error_checks_def Let_def)

lemma battery_unfold:
  "fst (free_of_error_checks today parse df) =
     (case valid_dates today (coerce_dates parse df) of
        Inl e \<Rightarrow> Inl e
      | Inr c2 \<Rightarrow>
     (case non_negative_LOC df of
        Inl e \<Rightarrow> Inl e
      | Inr c4 \<Rightarrow>
     (case LOC_consistency df of
        Inl e \<Rightarrow> Inl e
      | Inr c5 \<Rightarrow>
     (case reasonable_LOC_bounds df of
        Inl e \<Rightarrow> Inl e
      | Inr c6 \<Rightarrow>
          Inr [(''missing_values'', missing_values df),
               (''valid_dates'', c2),
               (''no_duplicates'', no_duplicates (coerce_dates parse df)),
               (''non_negative_LOC'', c4),
               (''LOC_consistency'', c5),
               (''reasonable_LOC_bounds'', c6),
               (''valid_commit_hash'', valid_commit_hash df),
               (''author_validity'', author_validity df),
               (''module_field_presence'', module_field_presence df),
               (''chronological_order'', chronological_order (coerce_dates parse df))]))))"
  by (simp add: free_of_error_checks_def Let_def split: sum.splits)

lemma battery_text:
  assumes "text_in_LOC df"
  shows "fst (free_of_error_checks today parse df) = Inl TypeError"
proof -
  have c4: "non_negative_LOC df = Inl TypeError \<or> (\<exists>b. non_negative_LOC df = Inr b)"
    using non_negative_LOC_error by (cases "non_negative_LOC df") auto
  have c2: "valid_dates today (coerce_dates parse df) = Inl TypeError \<or>
      (\<exists>b. valid_dates today (coerce_dates parse df) = Inr b)"
    using valid_dates_error by (cases "valid_dates today (coerce_dates parse df)") auto
  consider (a) "list_ex is_text (map loc_added df)"
    | (d) "\<not> list_ex is_text (map loc_added df)" "list_ex is_text (map loc_deleted df)"
    | (m) "\<not> list_ex is_text (map loc_added df)" "\<not> list_ex is_text (map loc_deleted df)"
          "list_ex is_text (map loc_modified df)"
    using assms unfolding text_in_LOC_columns by blast
  then show ?thesis
  proof cases
    case a
    with c2 show ?thesis
      by (auto simp: battery_unfold non_negative_LOC_text_added)
  next
    case d
    then have "LOC_consistency df = Inl TypeError" by (rule LOC_consistency_text_deleted)
    with c2 c4 show ?thesis
      by (auto simp: battery_unfold)
  next
    case m
    then have "\<exists>b. LOC_consistency df = Inr b" "reasonable_LOC_bounds df = Inl TypeError"
      by (simp_all add: LOC_consistency_no_text_operands reasonable_LOC_bounds_cases)
    with c2 c4 show ?thesis
      by (auto simp: battery_unfold)
  qed
qed

lemma battery_no_text:
  assumes "\<not> text_in_LOC df" and na: "\<not> aware_dates parse df"
  shows "fst (free_of_error_checks today parse df) =
     Inr [(''missing_values'', missing_values df),
          (''valid_dates'', list_all (on_or_before today) (map date (coerce_dates parse df))),
          (''no_duplicates'', no_duplicates (coerce_dates parse df)),
          (''non_negative_LOC'',
             list_all (num_ge 0) (map loc_added df) \<and> list_all (num_ge 0) (map loc_deleted df) \<and>
             list_all (num_ge 0) (map loc_modified df)),
          (''LOC_consistency'',
             list_all2 eq_cell (map loc_modified df)
               (map (\<lambda>r. num_add (int64_sum df) (loc_added r) (loc_deleted r)) df)),
          (''reasonable_LOC_bounds'', list_all (num_lt 10000) (map loc_modified df)),
          (''valid_commit_hash'', valid_commit_hash df),
          (''author_validity'', author_validity df),
          (''module_field_presence'', module_field_presence df),
          (''chronological_order'', chronological_order (coerce_dates parse df))]"
proof -
  have nt: "\<not> list_ex is_text (map loc_added df)" "\<not> list_ex is_text (map loc_deleted df)"
    "\<not> list_ex is_text (map loc_modified df)"
    using assms(1) unfolding text_in_LOC_columns by simp_all
  show ?thesis
    by (simp add: battery_unfold valid_dates_coerced[OF na]
        non_negative_LOC_no_text[OF assms(1)] LOC_consistency_no_text_operands[OF nt(1,2)]
        reasonable_LOC_bounds_cases nt(3))
qed

subsection \<open>Malformed values in the battery\<close>

text \<open>
  Claim C2, as stated, fails twice. A count that is not a number: the comparison
  \<^verbatim>\<open>df["loc_added"] >= 0\<close> raises a TypeError on a text. A date with a time zone: the
  converted column is aware, and comparing it with the naive \<^verbatim>\<open>dt.datetime.today()\<close> raises
  a TypeError. Nothing in the battery catches either, and no result dictionary is returned.
\<close>

theorem malformed_value_makes_battery_raise:
  "fst (free_of_error_checks 1800000000000000000 parse_ymd
     [(loaded_row ''abcd1234'' ''Alice'' ''2024-01-15'' ''src/a.py'' ''src'' 3 2 5)
        \<lparr>loc_added := Str ''abc''\<rparr>]) = Inl TypeError \<and>
   fst (free_of_error_checks 1800000000000000000 parse_ymd_hms_utc
     [loaded_row ''abcd1234'' ''Alice'' ''2024-01-15 10:00:00+00:00'' ''src/a.py'' ''src'' 3 2 5]) =
     Inl TypeError"
  by code_simp

lemma unusable_date_not_valid:
  "list_ex (\<lambda>r. unusable_date parse (date r)) df \<Longrightarrow>
   \<not> list_all (on_or_before today) (map date (coerce_dates parse df))"
proof (induction df)
  case Nil
  then show ?case by simp
next
  case (Cons r df)
  then show ?case
    by (cases "to_datetime1 parse (date r)") (auto simp: unusable_date_def)
qed

text \<open>
  Claim C2, amended. On a frame whose three count columns hold no text and whose dates carry
  no time zone, the battery does not raise: it returns the ten named results, and a date
  that is missing or does not parse is no error but makes \<open>valid_dates\<close> false.
\<close>

theorem battery_returns_without_text_counts:
  assumes "\<not> text_in_LOC df" and "\<not> aware_dates parse df"
  shows "\<exists>results. fst (free_of_error_checks today parse df) = Inr results \<and>
           map fst results = check_names \<and>
           (list_ex (\<lambda>r. unusable_date parse (date r)) df \<longrightarrow>
              map_of results ''valid_dates'' = Some False)"
  unfolding battery_no_text[OF assms] check_names_def
  using unusable_date_not_valid[of parse df today] by simp

text \<open>
  The amended claim at a frame whose only date is the 30th of February.
\<close>

theorem battery_returns_without_text_counts_witness:
  "\<exists>results. fst (free_of_error_checks 1800000000000000000 parse_ymd
       [loaded_row ''abcd1234'' ''Alice'' ''2024-02-30'' ''src/a.py'' ''src'' 3 2 5]) = Inr results \<and>
     map fst results = check_names \<and> map_of results ''valid_dates'' = Some False"
proof -
  let ?df = "[loaded_row ''abcd1234'' ''Alice'' ''2024-02-30'' ''src/a.py'' ''src'' 3 2 5]"
  have nt: "\<not> text_in_LOC ?df" by code_simp
  have na: "\<not> aware_dates parse_ymd ?df" by code_simp
  have un: "list_ex (\<lambda>r. unusable_date parse_ymd (date r)) ?df" by code_simp
  show ?thesis
    using battery_returns_without_text_counts[OF nt na, of 1800000000000000000] un
    by blast
qed

subsection \<open>What the battery does to the frame\<close>

text \<open>
  Claim C6, as stated, fails: the battery assigns the converted dates to the date column
  of the frame it was given, so a date loaded as a text is a timestamp afterwards.
\<close>

theorem battery_changes_date_column:
  "snd (free_of_error_checks 1800000000000000000 parse_ymd
     [loaded_row ''abcd1234'' ''Alice'' ''2024-01-15'' ''src/a.py'' ''src'' 3 2 5]) \<noteq>
   [loaded_row ''abcd1234'' ''Alice'' ''2024-01-15'' ''src/a.py'' ''src'' 3 2 5]"
  by (simp add: battery_frame coerce_dates_map loaded_row_def parse_ymd_def digit_val_def
      days_in_month_def is_leap_def)

text \<open>
  Claim C6, amended. The battery changes the date column only: the frame it leaves has the
  same records in the same order, each with its date replaced by the conversion of that
  date (a timestamp, or \<open>NaT\<close> for a missing or rejected one) and with every other field
  unchanged. The scorer returns a number and changes nothing: it only reads the frame.
\<close>

theorem battery_changes_only_date_column:
  "snd (free_of_error_checks today parse df) =
     map (\<lambda>r. r\<lparr>date := to_datetime1 parse (date r)\<rparr>) df \<and>
   map commit_hash (snd (free_of_error_checks today parse df)) = map commit_hash df \<and>
   map author (snd (free_of_error_checks today parse df)) = map author df \<and>
   map file_path (snd (free_of_error_checks today parse df)) = map file_path df \<and>
   map module (snd (free_of_error_checks today parse df)) = map module df \<and>
   map loc_added (snd (free_of_error_checks today parse df)) = map loc_added df \<and>
   map loc_deleted (snd (free_of_error_checks today parse df)) = map loc_deleted df \<and>
   map loc_modified (snd (free_of_error_checks today parse df)) = map loc_modified df"
  unfolding battery_frame by (simp add: coerce_dates_map)

subsection \<open>Each check alone and in the battery\<close>

text \<open>
  Claim C5, as stated, fails for \<open>no_duplicates\<close>: the check is evaluated on the frame
  after \<open>valid_dates\<close> has converted the date column. Two records that differ only in their
  dates, both rejected by the parser, are distinct as loaded and equal (both \<open>NaT\<close>) when the
  battery looks for duplicates.
\<close>

theorem no_duplicates_depends_on_valid_dates:
  "no_duplicates
     [loaded_row ''abcd1234'' ''Alice'' ''2024-02-30'' ''src/a.py'' ''src'' 3 2 5,
      loaded_row ''abcd1234'' ''Alice'' ''2024-02-31'' ''src/a.py'' ''src'' 3 2 5] \<and>
   fst (free_of_error_checks 1800000000000000000 parse_ymd
     [loaded_row ''abcd1234'' ''Alice'' ''2024-02-30'' ''src/a.py'' ''src'' 3 2 5,
      loaded_row ''abcd1234'' ''Alice'' ''2024-02-31'' ''src/a.py'' ''src'' 3 2 5]) =
     Inr [(''missing_values'', True), (''valid_dates'', False),
          (''no_duplicates'', False), (''non_negative_LOC'', True),
          (''LOC_consistency'', True), (''reasonable_LOC_bounds'', True),
          (''valid_commit_hash'', True), (''author_validity'', True),
          (''module_field_presence'', True), (''chronological_order'', False)]"
  by code_simp

lemma battery_Inr_no_text:
  "fst (free_of_error_checks today parse df) = Inr results \<Longrightarrow> \<not> text_in_LOC df"
  using battery_text[of df today parse] by auto

text \<open>
  Claim C5, amended. When the battery returns, eight entries are the value of the check's
  own expression on the frame as loaded (for \<open>valid_dates\<close> the expression includes the
  conversion of line 24), and the entries of \<open>no_duplicates\<close> and \<open>chronological_order\<close> are
  the value of the check's expression on the frame with the date column converted.
\<close>

theorem checks_alone_and_in_battery:
  assumes "fst (free_of_error_checks today parse df) = Inr results"
  shows "entry results ''missing_values'' = Some (Inr (missing_values df)) \<and>
         entry results ''valid_dates'' = Some (valid_dates today (coerce_dates parse df)) \<and>
         entry results ''no_duplicates'' = Some (Inr (no_duplicates (coerce_dates parse df))) \<and>
         entry results ''non_negative_LOC'' = Some (non_negative_LOC df) \<and>
         entry results ''LOC_consistency'' = Some (LOC_consistency df) \<and>
         entry results ''reasonable_LOC_bounds'' = Some (reasonable_LOC_bounds df) \<and>
         entry results ''valid_commit_hash'' = Some (Inr (valid_commit_hash df)) \<and>
         entry results ''author_validity'' = Some (Inr (author_validity df)) \<and>
         entry results ''module_field_presence'' = Some (Inr (module_field_presence df)) \<and>
         entry results ''chronological_order'' = Some (Inr (chronological_order (coerce_dates parse df)))"
  using assms unfolding battery_unfold entry_def
  by (auto split: sum.splits)

text \<open>
  The amended claim at the frame of the counterexample.
\<close>

theorem checks_alone_and_in_battery_witness:
  "entry [(''missing_values'', True), (''valid_dates'', False),
          (''no_duplicates'', False), (''non_negative_LOC'', True),
          (''LOC_consistency'', True), (''reasonable_LOC_bounds'', True),
          (''valid_commit_hash'', True), (''author_validity'', True),
          (''module_field_presence'', True), (''chronological_order'', False)] ''no_duplicates'' =
     Some (Inr (no_duplicates (coerce_dates parse_ymd
       [loaded_row ''abcd1234'' ''Alice'' ''2024-02-30'' ''src/a.py'' ''src'' 3 2 5,
        loaded_row ''abcd1234'' ''Alice'' ''2024-02-31'' ''src/a.py'' ''src'' 3 2 5])))"
proof -
  have "fst (free_of_error_checks 1800000000000000000 parse_ymd
     [loaded_row ''abcd1234'' ''Alice'' ''2024-02-30'' ''src/a.py'' ''src'' 3 2 5,
      loaded_row ''abcd1234'' ''Alice'' ''2024-02-31'' ''src/a.py'' ''src'' 3 2 5]) =
     Inr [(''missing_values'', True), (''valid_dates'', False),
          (''no_duplicates'', False), (''non_negative_LOC'', True),
          (''LOC_consistency'', True), (''reasonable_LOC_bounds'', True),
          (''valid_commit_hash'', True), (''author_validity'', True),
          (''module_field_presence'', True), (''chronological_order'', False)]"
    by code_simp
  from checks_alone_and_in_battery[OF this] show ?thesis by blast
qed

subsection \<open>The equation of the counts\<close>







subsection \<open>The timeliness score\<close>












subsection \<open>A commit that fails\<close>





subsection \<open>Instances\<close>




subsection \<open>Appending a record\<close>





lemma coerce_dates_Nil_iff [simp]: "coerce_dates parse df = [] \<longleftrightarrow> df = []"
  by (simp add: coerce_dates_map)




end
